theory Spec2Isabelle
  imports Main "HOL-Library.Word"
begin

section \<open>Platform values used by mute.cpp\<close>

text \<open>
  An \<open>HRESULT\<close> is a signed 32-bit status code. The two things the program does with one
  are the test \<open>FAILED(hr)\<close>, which winerror.h defines as \<open>hr < 0\<close> on the signed reading,
  and (in \<open>Init\<close> only) the comparison with \<open>S_OK\<close>, which is 0.
\<close>

type_synonym HRESULT = "32 word"

definition S_OK :: HRESULT where
  "S_OK = 0"

definition FAILED :: "HRESULT \<Rightarrow> bool" where
  "FAILED hr = (sint hr < 0)"

definition EXIT_SUCCESS :: int where
  "EXIT_SUCCESS = 0"

definition EXIT_FAILURE :: int where
  "EXIT_FAILURE = 1"

definition nl :: char where
  "nl = CHR 0x0A"

definition tab :: char where
  "tab = CHR 0x09"

definition dq :: char where
  "dq = CHR 0x22"

definition backslash :: char where
  "backslash = CHR 0x5C"

section \<open>Types\<close>

record Options =
  silent :: bool
  unmute :: bool

text \<open>
  Everything the program does to the outside world, in the order it does it: a write of
  a string to one of the two standard streams (one event per library call), or a call
  into COM and the audio subsystem. The calls made inside the loop carry the loop index
  of the endpoint they are made on.
\<close>

datatype stream = stdout | stderr

datatype event =
    Write stream string
  | CoInitializeEx
  | CoUninitialize
  | CreateInstance
  | EnumAudioEndpoints
  | GetCount
  | Item nat
  | OpenPropertyStore nat
  | GetValue nat
  | ActivateSessionManager nat
  | GetAudioSessionControl nat
  | ActivateEndpointVolume nat
  | GetMute nat
  | SetMute nat bool

text \<open>
  How a function that may not come back ends: it returns a value, or the process is
  killed inside it (then nothing after it runs, and there is no exit code of the
  program's own).
\<close>

datatype 'a outcome = Returns 'a | Killed

text \<open>
  One entry of the endpoint collection: the status each call on it returns, its friendly
  name, and its mute flag, the only part that the program changes.

  \<open>friendly_name\<close> is the \<open>pwszVal\<close> of the \<open>PROPVARIANT\<close> that \<open>GetValue\<close> fills in: the
  name, or \<open>None\<close> for the null pointer of an empty \<open>PROPVARIANT\<close>, which \<open>GetValue\<close>
  hands back together with a success status when the property store has no such key.

  \<open>stray_int\<close> is the integer that \<open>vfwprintf\<close> picks up for the \<open>%d\<close> of the
  name-failure message, whose argument the call at line 195 does not pass.
\<close>

record endpoint =
  item_hr :: HRESULT
  store_hr :: HRESULT
  name_hr :: HRESULT
  friendly_name :: "string option"
  stray_int :: "32 word"
  manager_hr :: HRESULT
  control_hr :: HRESULT
  volume_hr :: HRESULT
  getmute_hr :: HRESULT
  muted :: bool
  setmute_hr :: HRESULT

text \<open>
  The platform the program runs on: the status of the calls made once per run, and the
  collection of active render endpoints, whose length is what \<open>GetCount\<close> stores in
  \<open>epCount\<close>.
\<close>

record platform =
  coinit_hr :: HRESULT
  create_hr :: HRESULT
  enum_hr :: HRESULT
  count_hr :: HRESULT
  endpoints :: "endpoint list"

section \<open>Formatting and string comparison\<close>

fun dec :: "nat \<Rightarrow> string" where
  "dec n = (if n < 10 then [char_of (48 + n)] else dec (n div 10) @ [char_of (48 + n mod 10)])"

declare dec.simps [simp del]

text \<open>\<open>%d\<close>: the 32-bit argument printed as a signed decimal.\<close>

definition fmt_d :: "32 word \<Rightarrow> string" where
  "fmt_d v = (if sint v < 0 then CHR ''-'' # dec (nat (- sint v)) else dec (nat (sint v)))"

definition tolower :: "char \<Rightarrow> char" where
  "tolower c = (let n = of_char c :: nat in if 65 \<le> n \<and> n \<le> 90 then char_of (n + 32) else c)"

fun strcmp :: "string \<Rightarrow> string \<Rightarrow> int" where
  "strcmp [] [] = 0"
| "strcmp [] (b # bs) = - 1"
| "strcmp (a # as) [] = 1"
| "strcmp (a # as) (b # bs) =
     (if a = b then strcmp as bs else if (of_char a :: nat) < of_char b then - 1 else 1)"

definition strcmpi :: "string \<Rightarrow> string \<Rightarrow> int" where
  "strcmpi a b = strcmp (map tolower a) (map tolower b)"

text \<open>\<open>strrchr\<close>: the position of the last occurrence of the character, if any.\<close>

fun strrchr :: "string \<Rightarrow> char \<Rightarrow> nat option" where
  "strrchr [] c = None"
| "strrchr (x # xs) c =
     (case strrchr xs c of
        Some k \<Rightarrow> Some (Suc k)
      | None \<Rightarrow> if x = c then Some 0 else None)"

section \<open>Output\<close>

definition PrintError :: "Options \<Rightarrow> string \<Rightarrow> event list" where
  "PrintError opts msg =
     (if silent opts then []
      else [Write stdout ''! '', Write stderr msg, Write stderr [nl]])"

definition Print :: "Options \<Rightarrow> string \<Rightarrow> event list" where
  "Print opts msg =
     (if silent opts then []
      else [Write stdout msg, Write stdout [nl]])"

section \<open>Mute\<close>

text \<open>
  \<open>MuteEndpoint\<close>, for the endpoint-volume control of the endpoint at loop index \<open>i\<close>. A
  \<open>SetMute\<close> that succeeds leaves the flag of the endpoint at the value passed; one that
  fails leaves the endpoint as it was.
\<close>

definition MuteEndpoint :: "Options \<Rightarrow> nat \<Rightarrow> string \<Rightarrow> endpoint \<Rightarrow> event list \<times> endpoint" where
  "MuteEndpoint opts i deviceName d =
     (if FAILED (getmute_hr d) then
        ([GetMute i]
           @ PrintError opts (''Failed to get mute status for device '' @ [dq] @ deviceName @ [dq]),
         d)
      else let isMuted = muted d in
        if unmute opts \<and> \<not> isMuted then
          ([GetMute i] @ Print opts (''> '' @ deviceName @ '' is already unmuted.''), d)
        else if \<not> unmute opts \<and> isMuted then
          ([GetMute i] @ Print opts (''> '' @ deviceName @ '' is already muted.''), d)
        else if FAILED (setmute_hr d) then
          ([GetMute i, SetMute i (\<not> unmute opts)]
             @ PrintError opts (''Failed to set mute status for device '' @ [dq] @ deviceName @ [dq]),
           d)
        else
          ([GetMute i, SetMute i (\<not> unmute opts)]
             @ Print opts (''> '' @ deviceName @ '' is now ''
                            @ (if unmute opts then ''un'' else '''') @ ''muted''),
           d\<lparr>muted := \<not> unmute opts\<rparr>))"

text \<open>
  The body of the \<open>for\<close> loop of \<open>Mute\<close>, for loop index \<open>i\<close>. Each \<open>continue\<close> and the
  end of the body return to the loop. Line 198 builds \<open>deviceName\<close> from \<open>value.pwszVal\<close>
  without looking at it: from the null pointer the construction of the \<open>std::wstring\<close>
  reads through it and the process is killed there.
\<close>

definition Mute_body :: "Options \<Rightarrow> nat \<Rightarrow> endpoint \<Rightarrow> event list \<times> endpoint \<times> unit outcome" where
  "Mute_body opts i d =
     (if FAILED (item_hr d) then
        ([Item i] @ PrintError opts (''Failed to get audio endpoint #'' @ fmt_d (of_nat i)),
         d, Returns ())
      else if FAILED (store_hr d) then
        ([Item i, OpenPropertyStore i]
           @ PrintError opts
               (''Failed to open property store for audio endpoint #'' @ fmt_d (of_nat i)),
         d, Returns ())
      else if FAILED (name_hr d) then
        ([Item i, OpenPropertyStore i, GetValue i]
           @ PrintError opts
               (''Failed to get device name for audio endpoint #'' @ fmt_d (stray_int d)),
         d, Returns ())
      else case friendly_name d of
        None \<Rightarrow> ([Item i, OpenPropertyStore i, GetValue i], d, Killed)
      | Some deviceName \<Rightarrow>
        let found = [Item i, OpenPropertyStore i, GetValue i]
                      @ Print opts (''Found audio endpoint '' @ [dq] @ deviceName @ [dq])
        in
        if FAILED (manager_hr d) then
          (found @ [ActivateSessionManager i]
             @ PrintError opts
                 (''Failed to retrieve audio session manager for '' @ [dq] @ deviceName @ [dq]),
           d, Returns ())
        else if FAILED (control_hr d) then
          (found @ [ActivateSessionManager i, GetAudioSessionControl i]
             @ PrintError opts
                 (''Failed to retrieve audio session manager for '' @ [dq] @ deviceName @ [dq]),
           d, Returns ())
        else if FAILED (volume_hr d) then
          (found @ [ActivateSessionManager i, GetAudioSessionControl i, ActivateEndpointVolume i]
             @ PrintError opts
                 (''Failed to active endpoint volume for device '' @ [dq] @ deviceName @ [dq]),
           d, Returns ())
        else let (es, d') = MuteEndpoint opts i deviceName d in
          (found @ [ActivateSessionManager i, GetAudioSessionControl i, ActivateEndpointVolume i]
             @ es @ [Write stdout [nl]],
           d', Returns ()))"

text \<open>
  The loop itself: index \<open>i\<close> runs over the collection in order, and stops where the
  process is killed, with the endpoints after that one untouched.
\<close>

fun Mute_loop :: "Options \<Rightarrow> nat \<Rightarrow> endpoint list \<Rightarrow> event list \<times> endpoint list \<times> unit outcome" where
  "Mute_loop opts i [] = ([], [], Returns ())"
| "Mute_loop opts i (d # ds) =
     (let (es, d', r) = Mute_body opts i d in
        if r = Killed then (es, d' # ds, Killed)
        else let (es', ds', r') = Mute_loop opts (Suc i) ds in (es @ es', d' # ds', r'))"

definition Mute :: "Options \<Rightarrow> platform \<Rightarrow> event list \<times> endpoint list \<times> bool outcome" where
  "Mute opts w =
     (if FAILED (create_hr w) then
        ([CreateInstance]
           @ PrintError opts ''Failed to create instance of MMDeviceEnumerator'',
         endpoints w, Returns False)
      else if FAILED (enum_hr w) then
        ([CreateInstance, EnumAudioEndpoints]
           @ PrintError opts ''Failed to enumerate all audio endpoints'',
         endpoints w, Returns False)
      else if FAILED (count_hr w) then
        ([CreateInstance, EnumAudioEndpoints, GetCount]
           @ PrintError opts ''Failed to get endpoint count'',
         endpoints w, Returns False)
      else let (es, ds', r) = Mute_loop opts 0 (endpoints w) in
        ([CreateInstance, EnumAudioEndpoints, GetCount] @ es, ds',
         if r = Killed then Killed else Returns True))"

section \<open>Main and command line\<close>

definition usage_text :: "string \<Rightarrow> string" where
  "usage_text programName =
     programName @ '' <options>'' @ [nl]
       @ ''Options:'' @ [nl]
       @ [tab] @ ''-help'' @ [tab] @ ''Display this screen and exits'' @ [nl]
       @ [tab] @ ''-silent'' @ [tab] @ ''Don't print any output'' @ [nl]
       @ [tab] @ ''-unmute'' @ [tab] @ ''instead of muting, do the opposite'' @ [nl]"

definition PrintUsage :: "string \<Rightarrow> event list" where
  "PrintUsage programName = [Write stdout (usage_text programName)]"

definition DisplayUsage :: "int \<Rightarrow> string list \<Rightarrow> bool" where
  "DisplayUsage argc argv =
     (argc = 2 \<and> (strcmpi (argv ! 1) ''-help'' = 0 \<or> strcmp (argv ! 1) ''-?'' = 0))"

text \<open>
  The loop of \<open>ParseCommandLine\<close> over \<open>argv[1..argc-1]\<close>: it sets the flags as it goes and
  stops at the first argument that is neither \<open>-silent\<close> nor \<open>-unmute\<close>.
\<close>

fun ParseCommandLine_loop :: "Options \<Rightarrow> string list \<Rightarrow> Options \<times> bool" where
  "ParseCommandLine_loop opts [] = (opts, True)"
| "ParseCommandLine_loop opts (a # as) =
     (if strcmpi a ''-silent'' = 0 then ParseCommandLine_loop (opts\<lparr>silent := True\<rparr>) as
      else if strcmpi a ''-unmute'' = 0 then ParseCommandLine_loop (opts\<lparr>unmute := True\<rparr>) as
      else (opts, False))"

definition ParseCommandLine :: "Options \<Rightarrow> int \<Rightarrow> string list \<Rightarrow> Options \<times> bool" where
  "ParseCommandLine opts argc argv = ParseCommandLine_loop opts (drop 1 (take (nat argc) argv))"

text \<open>The value \<open>Init\<close> stores in the global \<open>programName_\<close>, from \<open>argv[0]\<close>.\<close>

definition program_name :: "string \<Rightarrow> string" where
  "program_name argv0 =
     (case strrchr argv0 backslash of
        Some k \<Rightarrow> drop (Suc k) argv0
      | None \<Rightarrow> argv0)"

text \<open>
  \<open>Init\<close> runs before the command line is parsed, so its \<open>PrintError\<close> sees the flags as
  they are at program start. It returns the events, \<open>programName_\<close> and its result.
\<close>

definition Init :: "Options \<Rightarrow> string list \<Rightarrow> platform \<Rightarrow> event list \<times> string \<times> bool" where
  "Init opts argv w =
     (let programName = program_name (argv ! 0)
      in if coinit_hr w \<noteq> S_OK then
           ([CoInitializeEx] @ PrintError opts ''Failed to initialize COM library'',
            programName, False)
         else ([CoInitializeEx], programName, True))"

definition Shutdown :: "event list" where
  "Shutdown = [CoUninitialize]"

text \<open>The global \<open>opts_\<close> as its initialiser \<open>{ 0 }\<close> leaves it.\<close>

definition initial_opts :: Options where
  "initial_opts = \<lparr>silent = False, unmute = False\<rparr>"

text \<open>
  \<open>main\<close>, for the program path \<open>prog\<close> (\<open>argv[0]\<close>, which the C runtime always supplies)
  and the arguments after it. The result is the trace of the run, the endpoints as the
  run leaves them, and the exit code that \<open>main\<close> returns, unless the process is killed
  inside \<open>Mute\<close>.
\<close>

definition main :: "string \<Rightarrow> string list \<Rightarrow> platform \<Rightarrow> event list \<times> endpoint list \<times> int outcome" where
  "main prog args w =
     (let argv = prog # args;
          argc = int (length argv);
          opts0 = initial_opts;
          (es0, programName, ok) = Init opts0 argv w
      in if ok then
           if DisplayUsage argc argv then
             (es0 @ PrintUsage programName @ Shutdown, endpoints w, Returns EXIT_FAILURE)
           else let (opts, parsed) = ParseCommandLine opts0 argc argv in
             if \<not> parsed then
               (es0 @ PrintUsage programName @ Shutdown, endpoints w, Returns EXIT_FAILURE)
             else let (es, ds', r) = Mute opts w in
               case r of
                 Killed \<Rightarrow> (es0 @ es, ds', Killed)
               | Returns muted_ok \<Rightarrow>
                   (es0 @ es @ Shutdown, ds',
                    Returns (if muted_ok then EXIT_SUCCESS else EXIT_FAILURE))
         else (es0, endpoints w, Returns EXIT_FAILURE))"

section \<open>Vocabulary of the properties\<close>

text \<open>The flags a run works with: what \<open>ParseCommandLine\<close> leaves in \<open>opts_\<close>.\<close>

definition run_opts :: "string list \<Rightarrow> Options" where
  "run_opts args = fst (ParseCommandLine_loop initial_opts args)"

text \<open>
  The command lines that ask for the usage text, in the words of the interface
  description: \<open>-help\<close> or \<open>-?\<close> as the sole argument, or an argument that is neither
  \<open>-silent\<close> nor \<open>-unmute\<close> anywhere.
\<close>

definition recognized :: "string \<Rightarrow> bool" where
  "recognized a = (strcmpi a ''-silent'' = 0 \<or> strcmpi a ''-unmute'' = 0)"

definition help_request :: "string list \<Rightarrow> bool" where
  "help_request args =
     (case args of
        [a] \<Rightarrow> strcmpi a ''-help'' = 0 \<or> strcmp a ''-?'' = 0
      | _ \<Rightarrow> False)"

definition usage_requested :: "string list \<Rightarrow> bool" where
  "usage_requested args = (help_request args \<or> list_ex (\<lambda>a. \<not> recognized a) args)"

text \<open>
  The runs that get as far as the loop over the endpoints: \<open>Init\<close> succeeds, the command
  line does not ask for the usage text, and the enumerator, the enumeration and the
  count are obtained.
\<close>

definition loop_reached :: "string list \<Rightarrow> platform \<Rightarrow> bool" where
  "loop_reached args w =
     (coinit_hr w = S_OK \<and> \<not> usage_requested args
      \<and> \<not> FAILED (create_hr w) \<and> \<not> FAILED (enum_hr w) \<and> \<not> FAILED (count_hr w))"

text \<open>
  An endpoint whose name lookup succeeds without giving a name: the one on which the
  loop body does not return.
\<close>

definition nameless :: "endpoint \<Rightarrow> bool" where
  "nameless d =
     (\<not> FAILED (item_hr d) \<and> \<not> FAILED (store_hr d) \<and> \<not> FAILED (name_hr d)
      \<and> friendly_name d = None)"

text \<open>
  The number of iterations the loop makes on a collection: all of them, or those up to
  and including the first endpoint on which the body does not return.
\<close>

fun iterations :: "endpoint list \<Rightarrow> nat" where
  "iterations [] = 0"
| "iterations (d # ds) = (if nameless d then 1 else Suc (iterations ds))"

text \<open>
  An endpoint whose endpoint-volume control is obtained, so that \<open>MuteEndpoint\<close> is
  called on it: every call of the loop body before succeeds and the name is there. It
  is readable when \<open>GetMute\<close> succeeds as well.
\<close>

definition reaches_control :: "endpoint \<Rightarrow> bool" where
  "reaches_control d =
     (\<not> FAILED (item_hr d) \<and> \<not> FAILED (store_hr d) \<and> \<not> FAILED (name_hr d)
      \<and> friendly_name d \<noteq> None
      \<and> \<not> FAILED (manager_hr d) \<and> \<not> FAILED (control_hr d) \<and> \<not> FAILED (volume_hr d))"

definition readable :: "endpoint \<Rightarrow> bool" where
  "readable d = (reaches_control d \<and> \<not> FAILED (getmute_hr d))"

text \<open>The loop index an event belongs to, for the calls made inside the loop.\<close>

fun ev_index :: "event \<Rightarrow> nat option" where
  "ev_index (Item i) = Some i"
| "ev_index (OpenPropertyStore i) = Some i"
| "ev_index (GetValue i) = Some i"
| "ev_index (ActivateSessionManager i) = Some i"
| "ev_index (GetAudioSessionControl i) = Some i"
| "ev_index (ActivateEndpointVolume i) = Some i"
| "ev_index (GetMute i) = Some i"
| "ev_index (SetMute i b) = Some i"
| "ev_index _ = None"

text \<open>The bytes a trace writes to one stream, in order.\<close>

fun written :: "stream \<Rightarrow> event list \<Rightarrow> string" where
  "written s [] = []"
| "written s (Write s' m # es) = (if s' = s then m @ written s es else written s es)"
| "written s (_ # es) = written s es"

section \<open>Example platforms\<close>

text \<open>
  Two endpoints on which every call succeeds, "Speakers" (not muted) and "Headset"
  (muted), and the failure status \<open>E_FAIL\<close>.
\<close>

definition E_FAIL :: HRESULT where
  "E_FAIL = 0x80004005"

definition speakers :: endpoint where
  "speakers =
     \<lparr>item_hr = 0, store_hr = 0, name_hr = 0, friendly_name = Some ''Speakers'', stray_int = 0,
      manager_hr = 0, control_hr = 0, volume_hr = 0, getmute_hr = 0, muted = False,
      setmute_hr = 0\<rparr>"

definition headset :: endpoint where
  "headset = speakers\<lparr>friendly_name := Some ''Headset'', muted := True\<rparr>"

definition desk :: platform where
  "desk = \<lparr>coinit_hr = 0, create_hr = 0, enum_hr = 0, count_hr = 0,
            endpoints = [speakers, headset]\<rparr>"

text \<open>The same platform with no active render endpoint.\<close>

definition bare :: platform where
  "bare = desk\<lparr>endpoints := []\<rparr>"

text \<open>Speakers whose mute flag can be read but not written.\<close>

definition stuck :: platform where
  "stuck = desk\<lparr>endpoints := [speakers\<lparr>setmute_hr := E_FAIL\<rparr>]\<rparr>"

text \<open>
  Three endpoints of which the first cannot be retrieved and the second has no audio
  session manager.
\<close>

definition flaky :: platform where
  "flaky = desk\<lparr>endpoints :=
             [speakers\<lparr>item_hr := E_FAIL\<rparr>, headset\<lparr>manager_hr := E_FAIL\<rparr>, speakers]\<rparr>"

text \<open>Both endpoints with a mute flag that cannot be read.\<close>

definition deaf :: platform where
  "deaf = desk\<lparr>endpoints :=
            [speakers\<lparr>getmute_hr := E_FAIL\<rparr>, headset\<lparr>getmute_hr := E_FAIL\<rparr>]\<rparr>"

text \<open>
  An endpoint without the friendly-name property, for which \<open>GetValue\<close> succeeds with an
  empty \<open>PROPVARIANT\<close>, in front of the working speakers.
\<close>

definition anonymous :: platform where
  "anonymous = desk\<lparr>endpoints := [headset\<lparr>friendly_name := None\<rparr>, speakers]\<rparr>"

text \<open>Platforms on which COM cannot be initialised, or no enumerator can be created.\<close>

definition no_com :: platform where
  "no_com = desk\<lparr>coinit_hr := E_FAIL\<rparr>"

definition no_enumerator :: platform where
  "no_enumerator = desk\<lparr>create_hr := E_FAIL\<rparr>"

section \<open>The structure of a run\<close>

subsection \<open>Command line\<close>

lemma parse_loop_snd:
  "snd (ParseCommandLine_loop opts as) = list_all recognized as"
  by (induction as arbitrary: opts) (auto simp: recognized_def)

lemma ParseCommandLine_argv:
  "ParseCommandLine opts (int (length (prog # args))) (prog # args) = ParseCommandLine_loop opts args"
  by (simp add: ParseCommandLine_def)

lemma DisplayUsage_argv:
  "DisplayUsage (int (length (prog # args))) (prog # args) = help_request args"
  by (cases args rule: list.exhaust; cases "tl args") (auto simp: DisplayUsage_def help_request_def)

lemma usage_requested_parse:
  "usage_requested args = (help_request args \<or> \<not> snd (ParseCommandLine_loop initial_opts args))"
  by (simp add: usage_requested_def parse_loop_snd list_ex_iff list_all_iff)

lemma Init_argv:
  "Init opts (prog # args) w =
     (if coinit_hr w \<noteq> S_OK
      then ([CoInitializeEx] @ PrintError opts ''Failed to initialize COM library'', program_name prog, False)
      else ([CoInitializeEx], program_name prog, True))"
  by (simp add: Init_def)

lemma main_init_failed:
  "coinit_hr w \<noteq> S_OK \<Longrightarrow>
   main prog args w =
     ([CoInitializeEx, Write stdout ''! '', Write stderr ''Failed to initialize COM library'',
       Write stderr [nl]], endpoints w, Returns EXIT_FAILURE)"
  by (simp add: main_def Init_argv PrintError_def initial_opts_def)

lemma main_usage:
  "coinit_hr w = S_OK \<Longrightarrow> usage_requested args \<Longrightarrow>
   main prog args w =
     ([CoInitializeEx, Write stdout (usage_text (program_name prog)), CoUninitialize],
      endpoints w, Returns EXIT_FAILURE)"
  unfolding main_def Let_def usage_requested_parse
  by (simp only: Init_argv DisplayUsage_argv ParseCommandLine_argv)
     (auto simp: PrintUsage_def Shutdown_def split: prod.splits)

lemma main_run:
  "coinit_hr w = S_OK \<Longrightarrow> \<not> usage_requested args \<Longrightarrow>
   main prog args w =
     (case snd (snd (Mute (run_opts args) w)) of
        Killed \<Rightarrow>
          (CoInitializeEx # fst (Mute (run_opts args) w),
           fst (snd (Mute (run_opts args) w)), Killed)
      | Returns muted_ok \<Rightarrow>
          (CoInitializeEx # fst (Mute (run_opts args) w) @ [CoUninitialize],
           fst (snd (Mute (run_opts args) w)),
           Returns (if muted_ok then EXIT_SUCCESS else EXIT_FAILURE)))"
  unfolding main_def Let_def usage_requested_parse
  by (simp only: Init_argv DisplayUsage_argv ParseCommandLine_argv)
     (auto simp: run_opts_def Shutdown_def split: prod.splits outcome.splits)

lemma Mute_ok:
  "\<not> FAILED (create_hr w) \<Longrightarrow> \<not> FAILED (enum_hr w) \<Longrightarrow> \<not> FAILED (count_hr w) \<Longrightarrow>
   Mute opts w =
     ([CreateInstance, EnumAudioEndpoints, GetCount] @ fst (Mute_loop opts 0 (endpoints w)),
      fst (snd (Mute_loop opts 0 (endpoints w))),
      if snd (snd (Mute_loop opts 0 (endpoints w))) = Killed then Killed else Returns True)"
  by (simp add: Mute_def split: prod.splits)

lemma Mute_failed:
  "FAILED (create_hr w) \<or> FAILED (enum_hr w) \<or> FAILED (count_hr w) \<Longrightarrow>
   Mute opts w =
     ((if FAILED (create_hr w) then
         [CreateInstance] @ PrintError opts ''Failed to create instance of MMDeviceEnumerator''
       else if FAILED (enum_hr w) then
         [CreateInstance, EnumAudioEndpoints]
           @ PrintError opts ''Failed to enumerate all audio endpoints''
       else
         [CreateInstance, EnumAudioEndpoints, GetCount]
           @ PrintError opts ''Failed to get endpoint count''),
      endpoints w, Returns False)"
  by (auto simp: Mute_def)

subsection \<open>Writes carry no loop index\<close>

lemma Print_index: "e \<in> set (Print opts m) \<Longrightarrow> ev_index e = None"
  by (auto simp: Print_def split: if_splits)

lemma PrintError_index: "e \<in> set (PrintError opts m) \<Longrightarrow> ev_index e = None"
  by (auto simp: PrintError_def split: if_splits)

lemma count_Print [simp]: "ev_index e = Some j \<Longrightarrow> count_list (Print opts m) e = 0"
  using Print_index [of e opts m] by (auto simp: count_list_0_iff)

lemma count_PrintError [simp]: "ev_index e = Some j \<Longrightarrow> count_list (PrintError opts m) e = 0"
  using PrintError_index [of e opts m] by (auto simp: count_list_0_iff)

lemma notin_Print [simp]: "ev_index e = Some j \<Longrightarrow> e \<notin> set (Print opts m)"
  using Print_index [of e opts m] by auto

lemma notin_PrintError [simp]: "ev_index e = Some j \<Longrightarrow> e \<notin> set (PrintError opts m)"
  using PrintError_index [of e opts m] by auto

subsection \<open>MuteEndpoint\<close>

lemma MuteEndpoint_index:
  "e \<in> set (fst (MuteEndpoint opts i n d)) \<Longrightarrow> ev_index e = None \<or> ev_index e = Some i"
  by (auto simp: MuteEndpoint_def Let_def dest: Print_index PrintError_index split: if_splits)

lemma MuteEndpoint_counts:
  "count_list (fst (MuteEndpoint opts i n d)) (SetMute i True)
     + count_list (fst (MuteEndpoint opts i n d)) (SetMute i False)
     \<le> count_list (fst (MuteEndpoint opts i n d)) (GetMute i)
   \<and> count_list (fst (MuteEndpoint opts i n d)) (GetMute i) = 1
   \<and> count_list (fst (MuteEndpoint opts i n d)) (ActivateEndpointVolume i) = 0
   \<and> count_list (fst (MuteEndpoint opts i n d)) (Item i) = 0"
  by (simp add: MuteEndpoint_def Let_def)

lemma MuteEndpoint_state:
  "snd (MuteEndpoint opts i n d) = d \<or> snd (MuteEndpoint opts i n d) = d\<lparr>muted := \<not> unmute opts\<rparr>"
  by (simp add: MuteEndpoint_def Let_def)

lemma MuteEndpoint_SetMute:
  "SetMute j b \<in> set (fst (MuteEndpoint opts i n d)) \<Longrightarrow>
     j = i \<and> b = (\<not> unmute opts) \<and> muted d = unmute opts \<and> \<not> FAILED (getmute_hr d)"
  by (auto simp: MuteEndpoint_def Let_def split: if_splits)

lemma MuteEndpoint_written:
  "SetMute j b \<in> set (fst (MuteEndpoint opts i n d)) \<Longrightarrow> \<not> FAILED (setmute_hr d) \<Longrightarrow>
     muted (snd (MuteEndpoint opts i n d)) = (\<not> unmute opts)"
  by (auto simp: MuteEndpoint_def Let_def split: if_splits)

lemma MuteEndpoint_off_target:
  "\<not> FAILED (getmute_hr d) \<Longrightarrow> muted d = unmute opts \<Longrightarrow>
     SetMute i (\<not> unmute opts) \<in> set (fst (MuteEndpoint opts i n d))"
  by (auto simp: MuteEndpoint_def Let_def)

subsection \<open>The loop body\<close>

text \<open>The body on an endpoint whose endpoint-volume control is obtained, and on the others.\<close>

lemma Mute_body_reached:
  assumes "reaches_control d"
  shows "\<exists>n. friendly_name d = Some n \<and>
    Mute_body opts i d =
      ([Item i, OpenPropertyStore i, GetValue i]
         @ Print opts (''Found audio endpoint '' @ [dq] @ n @ [dq])
         @ [ActivateSessionManager i, GetAudioSessionControl i, ActivateEndpointVolume i]
         @ fst (MuteEndpoint opts i n d) @ [Write stdout [nl]],
       snd (MuteEndpoint opts i n d), Returns ())"
  using assms by (auto simp: reaches_control_def Mute_body_def Let_def split_beta)

lemma Mute_body_skipped:
  assumes "\<not> reaches_control d"
  shows "fst (snd (Mute_body opts i d)) = d"
    and "GetMute j \<notin> set (fst (Mute_body opts i d))"
    and "SetMute j b \<notin> set (fst (Mute_body opts i d))"
    and "count_list (fst (Mute_body opts i d)) (ActivateEndpointVolume i)
           \<le> count_list (fst (Mute_body opts i d)) (Item i)"
    and "count_list (fst (Mute_body opts i d)) (Item i) = 1"
  using assms
  by (auto simp: reaches_control_def Mute_body_def Let_def split: option.splits)

lemma Mute_body_outcome:
  "snd (snd (Mute_body opts i d)) = (if nameless d then Killed else Returns ())"
  by (auto simp: Mute_body_def nameless_def Let_def split_beta split: option.splits)

lemma Mute_body_index:
  "e \<in> set (fst (Mute_body opts i d)) \<Longrightarrow> ev_index e = None \<or> ev_index e = Some i"
proof (cases "reaches_control d")
  case True
  from Mute_body_reached [OF this, of opts i] obtain n where
    "Mute_body opts i d =
      ([Item i, OpenPropertyStore i, GetValue i]
         @ Print opts (''Found audio endpoint '' @ [dq] @ n @ [dq])
         @ [ActivateSessionManager i, GetAudioSessionControl i, ActivateEndpointVolume i]
         @ fst (MuteEndpoint opts i n d) @ [Write stdout [nl]],
       snd (MuteEndpoint opts i n d), Returns ())"
    by blast
  then show "e \<in> set (fst (Mute_body opts i d)) \<Longrightarrow> ev_index e = None \<or> ev_index e = Some i"
    by (auto dest: Print_index MuteEndpoint_index)
next
  case False
  assume "e \<in> set (fst (Mute_body opts i d))"
  with False show ?thesis
    by (auto simp: reaches_control_def Mute_body_def Let_def dest: Print_index PrintError_index
             split: if_splits option.splits)
qed

lemma Mute_body_count_other:
  assumes "ev_index e = Some j" "j \<noteq> i"
  shows "count_list (fst (Mute_body opts i d)) e = 0"
  using Mute_body_index [of e opts i d] assms by (auto simp: count_list_0_iff)

lemma Mute_body_counts:
  "count_list (fst (Mute_body opts i d)) (SetMute i True)
     + count_list (fst (Mute_body opts i d)) (SetMute i False)
     \<le> count_list (fst (Mute_body opts i d)) (GetMute i)
   \<and> count_list (fst (Mute_body opts i d)) (GetMute i)
     \<le> count_list (fst (Mute_body opts i d)) (ActivateEndpointVolume i)
   \<and> count_list (fst (Mute_body opts i d)) (ActivateEndpointVolume i)
     \<le> count_list (fst (Mute_body opts i d)) (Item i)
   \<and> count_list (fst (Mute_body opts i d)) (Item i) = 1"
proof (cases "reaches_control d")
  case True
  from Mute_body_reached [OF this, of opts i] obtain n where
    "Mute_body opts i d =
      ([Item i, OpenPropertyStore i, GetValue i]
         @ Print opts (''Found audio endpoint '' @ [dq] @ n @ [dq])
         @ [ActivateSessionManager i, GetAudioSessionControl i, ActivateEndpointVolume i]
         @ fst (MuteEndpoint opts i n d) @ [Write stdout [nl]],
       snd (MuteEndpoint opts i n d), Returns ())"
    by blast
  then show ?thesis using MuteEndpoint_counts [of opts i n d] by simp
next
  case False
  from Mute_body_skipped(4) [OF False, of opts i] show ?thesis
    using False by (simp add: Mute_body_skipped count_list_0_iff)
qed

lemma Mute_body_state:
  "fst (snd (Mute_body opts i d)) = d
   \<or> fst (snd (Mute_body opts i d)) = d\<lparr>muted := \<not> unmute opts\<rparr>"
proof (cases "reaches_control d")
  case True
  from Mute_body_reached [OF this, of opts i] obtain n where
    "fst (snd (Mute_body opts i d)) = snd (MuteEndpoint opts i n d)"
    by force
  then show ?thesis using MuteEndpoint_state [of opts i n d] by simp
next
  case False
  from Mute_body_skipped(1) [OF this] show ?thesis by simp
qed

lemma Mute_body_nameless [simp]:
  "nameless (fst (snd (Mute_body opts i d))) = nameless d"
  using Mute_body_state [of opts i d] by (auto simp: nameless_def)

lemma Mute_body_status:
  "readable (fst (snd (Mute_body opts i d))) = readable d"
  "setmute_hr (fst (snd (Mute_body opts i d))) = setmute_hr d"
  using Mute_body_state [of opts i d] by (auto simp: readable_def reaches_control_def)

text \<open>A write happens only off the target, with the target as its argument.\<close>

lemma Mute_body_SetMute:
  assumes "SetMute j b \<in> set (fst (Mute_body opts i d))"
  shows "j = i \<and> b = (\<not> unmute opts) \<and> muted d = unmute opts \<and> readable d"
proof (cases "reaches_control d")
  case True
  from Mute_body_reached [OF this, of opts i] assms obtain n where
    "SetMute j b \<in> set (fst (MuteEndpoint opts i n d))"
    by auto
  from MuteEndpoint_SetMute [OF this] True show ?thesis by (simp add: readable_def)
next
  case False
  from Mute_body_skipped(3) [OF this] assms show ?thesis by blast
qed

text \<open>After a write that succeeds the endpoint is at the target.\<close>

lemma Mute_body_written:
  assumes "SetMute j b \<in> set (fst (Mute_body opts i d))" and "\<not> FAILED (setmute_hr d)"
  shows "muted (fst (snd (Mute_body opts i d))) = (\<not> unmute opts)"
proof (cases "reaches_control d")
  case True
  from Mute_body_reached [OF this, of opts i] assms(1) obtain n where
    "SetMute j b \<in> set (fst (MuteEndpoint opts i n d))"
    and "fst (snd (Mute_body opts i d)) = snd (MuteEndpoint opts i n d)"
    by auto
  with MuteEndpoint_written [of j b opts i n d] assms(2) show ?thesis by simp
next
  case False
  from Mute_body_skipped(3) [OF this] assms show ?thesis by blast
qed

lemma Mute_body_readable:
  assumes "readable d" and "muted d = unmute opts"
  shows "SetMute i (\<not> unmute opts) \<in> set (fst (Mute_body opts i d))"
proof -
  from assms(1) have r: "reaches_control d" and g: "\<not> FAILED (getmute_hr d)"
    by (simp_all add: readable_def)
  from Mute_body_reached [OF r, of opts i] obtain n where
    "fst (Mute_body opts i d) =
      [Item i, OpenPropertyStore i, GetValue i]
         @ Print opts (''Found audio endpoint '' @ [dq] @ n @ [dq])
         @ [ActivateSessionManager i, GetAudioSessionControl i, ActivateEndpointVolume i]
         @ fst (MuteEndpoint opts i n d) @ [Write stdout [nl]]"
    by force
  with MuteEndpoint_off_target [OF g assms(2), of i n] show ?thesis by simp
qed

subsection \<open>The loop\<close>

lemma iterations_le: "iterations ds \<le> length ds"
  by (induction ds) auto

lemma Mute_loop_outcome:
  "snd (snd (Mute_loop opts i ds)) = (if list_ex nameless ds then Killed else Returns ())"
  by (induction ds arbitrary: i) (auto simp: split_beta Mute_body_outcome)

lemma Mute_loop_events:
  "fst (Mute_loop opts i ds) =
     concat (map (\<lambda>(k, d). fst (Mute_body opts k d)) (zip [i..<i + iterations ds] ds))"
proof (induction ds arbitrary: i)
  case Nil
  show ?case by simp
next
  case (Cons d ds)
  have "[i..<i + Suc (iterations ds)] = i # [Suc i..<Suc i + iterations ds]"
    using upt_conv_Cons [of i "i + Suc (iterations ds)"] by simp
  with Cons [of "Suc i"] show ?case
    by (simp add: split_beta Mute_body_outcome)
qed

lemma Mute_loop_length: "length (fst (snd (Mute_loop opts i ds))) = length ds"
  by (induction ds arbitrary: i) (auto simp: split_beta)

lemma Mute_loop_nth:
  "k < length ds \<Longrightarrow>
   fst (snd (Mute_loop opts i ds)) ! k =
     (if k < iterations ds then fst (snd (Mute_body opts (i + k) (ds ! k))) else ds ! k)"
proof (induction ds arbitrary: i k)
  case Nil
  then show ?case by simp
next
  case (Cons d ds)
  show ?case
  proof (cases k)
    case 0
    then show ?thesis by (simp add: split_beta Mute_body_outcome)
  next
    case (Suc n)
    with Cons.prems have "n < length ds" by simp
    from Cons.IH [OF this, of "Suc i"] Suc show ?thesis
      by (simp add: split_beta Mute_body_outcome)
  qed
qed

lemma Mute_loop_count:
  assumes "ev_index e = Some j"
  shows "count_list (fst (Mute_loop opts i ds)) e =
           (if i \<le> j \<and> j < i + iterations ds
            then count_list (fst (Mute_body opts j (ds ! (j - i)))) e else 0)"
proof (induction ds arbitrary: i)
  case Nil
  show ?case by simp
next
  case (Cons d ds)
  show ?case
  proof (cases "j = i")
    case True
    then show ?thesis using Cons [of "Suc i"] by (simp add: split_beta Mute_body_outcome)
  next
    case False
    then show ?thesis
      using Cons [of "Suc i"] Mute_body_count_other [OF assms, of i opts d]
      by (auto simp: split_beta Suc_diff_le Mute_body_outcome)
  qed
qed

text \<open>The loop makes the same iterations on the endpoints as it leaves them.\<close>

lemma Mute_loop_iterations:
  "iterations (fst (snd (Mute_loop opts i ds))) = iterations ds"
  by (induction ds arbitrary: i) (auto simp: split_beta Mute_body_outcome)

subsection \<open>Runs that do and do not reach the loop\<close>

lemma main_loop_reached:
  "loop_reached args w \<Longrightarrow>
   main prog args w =
     ([CoInitializeEx, CreateInstance, EnumAudioEndpoints, GetCount]
        @ fst (Mute_loop (run_opts args) 0 (endpoints w))
        @ (if list_ex nameless (endpoints w) then [] else [CoUninitialize]),
      fst (snd (Mute_loop (run_opts args) 0 (endpoints w))),
      if list_ex nameless (endpoints w) then Killed else Returns EXIT_SUCCESS)"
  by (simp add: loop_reached_def main_run Mute_ok Mute_loop_outcome)

lemma main_not_reached:
  assumes "\<not> loop_reached args w"
  shows "fst (snd (main prog args w)) = endpoints w"
    and "snd (snd (main prog args w)) = Returns EXIT_FAILURE"
    and "e \<in> set (fst (main prog args w)) \<Longrightarrow> ev_index e = None"
proof -
  have "fst (snd (main prog args w)) = endpoints w
    \<and> snd (snd (main prog args w)) = Returns EXIT_FAILURE
    \<and> (\<forall>e\<in>set (fst (main prog args w)). ev_index e = None)"
  proof (cases "coinit_hr w = S_OK")
    case False
    then show ?thesis by (auto simp: main_init_failed)
  next
    case ok: True
    show ?thesis
    proof (cases "usage_requested args")
      case True
      with ok show ?thesis by (auto simp: main_usage)
    next
      case False
      with ok assms have "FAILED (create_hr w) \<or> FAILED (enum_hr w) \<or> FAILED (count_hr w)"
        by (auto simp: loop_reached_def)
      from Mute_failed [OF this, of "run_opts args"] ok False show ?thesis
        by (auto simp: main_run dest: PrintError_index split: if_splits)
    qed
  qed
  then show "fst (snd (main prog args w)) = endpoints w"
    and "snd (snd (main prog args w)) = Returns EXIT_FAILURE"
    and "e \<in> set (fst (main prog args w)) \<Longrightarrow> ev_index e = None"
    by blast+
qed

lemma main_count:
  assumes "ev_index e = Some j"
  shows "count_list (fst (main prog args w)) e =
           (if loop_reached args w \<and> j < iterations (endpoints w)
            then count_list (fst (Mute_body (run_opts args) j (endpoints w ! j))) e else 0)"
proof (cases "loop_reached args w")
  case True
  have "e \<noteq> CoInitializeEx" "e \<noteq> CreateInstance" "e \<noteq> EnumAudioEndpoints" "e \<noteq> GetCount"
       "e \<noteq> CoUninitialize"
    using assms by auto
  then show ?thesis
    using True Mute_loop_count [OF assms, of "run_opts args" 0 "endpoints w"]
    by (simp add: main_loop_reached)
next
  case False
  have "e \<notin> set (fst (main prog args w))"
    using main_not_reached(3) [OF False, of e prog] assms by fastforce
  then show ?thesis using False by (simp add: count_list_0_iff)
qed

lemma main_member:
  assumes "ev_index e = Some j" and "e \<in> set (fst (main prog args w))"
  shows "loop_reached args w \<and> j < iterations (endpoints w)
         \<and> e \<in> set (fst (Mute_body (run_opts args) j (endpoints w ! j)))"
proof -
  from assms(2) have "count_list (fst (main prog args w)) e \<noteq> 0"
    by (simp add: count_list_0_iff)
  with main_count [OF assms(1), of prog args w]
  have "loop_reached args w \<and> j < iterations (endpoints w)
         \<and> count_list (fst (Mute_body (run_opts args) j (endpoints w ! j))) e \<noteq> 0"
    by (simp split: if_splits)
  moreover have "e \<in> set (fst (Mute_body (run_opts args) j (endpoints w ! j)))"
    if "count_list (fst (Mute_body (run_opts args) j (endpoints w ! j))) e \<noteq> 0"
  proof (rule ccontr)
    assume "e \<notin> set (fst (Mute_body (run_opts args) j (endpoints w ! j)))"
    then have "count_list (fst (Mute_body (run_opts args) j (endpoints w ! j))) e = 0"
      by (simp add: count_list_0_iff)
    with that show False by simp
  qed
  ultimately show ?thesis by blast
qed

text \<open>The trace of every iteration the loop makes is a segment of the trace of the run.\<close>

lemma Mute_loop_iteration:
  "m < iterations ds \<Longrightarrow>
     \<exists>pre post. fst (Mute_loop opts i ds) = pre @ fst (Mute_body opts (i + m) (ds ! m)) @ post"
proof (induction ds arbitrary: i m)
  case Nil
  then show ?case by simp
next
  case (Cons d ds)
  show ?case
  proof (cases m)
    case 0
    have "fst (Mute_loop opts i (d # ds))
            = [] @ fst (Mute_body opts i d)
                @ (if nameless d then [] else fst (Mute_loop opts (Suc i) ds))"
      by (simp add: split_beta Mute_body_outcome)
    with 0 show ?thesis by (metis add.right_neutral nth_Cons_0)
  next
    case (Suc n)
    with Cons.prems have nd: "\<not> nameless d" and n: "n < iterations ds"
      by (auto split: if_splits)
    from Cons.IH [OF n, of "Suc i"] obtain pre post where
      "fst (Mute_loop opts (Suc i) ds) = pre @ fst (Mute_body opts (Suc i + n) (ds ! n)) @ post"
      by blast
    with nd Suc have "fst (Mute_loop opts i (d # ds))
        = (fst (Mute_body opts i d) @ pre) @ fst (Mute_body opts (i + m) ((d # ds) ! m)) @ post"
      by (simp add: split_beta Mute_body_outcome)
    then show ?thesis by blast
  qed
qed

lemma main_iteration:
  assumes "loop_reached args w" and "m < iterations (endpoints w)"
  shows "\<exists>pre post. fst (main prog args w)
           = pre @ fst (Mute_body (run_opts args) m (endpoints w ! m)) @ post"
proof -
  from Mute_loop_iteration [OF assms(2), of "run_opts args" 0] obtain pre post where
    "fst (Mute_loop (run_opts args) 0 (endpoints w))
       = pre @ fst (Mute_body (run_opts args) m (endpoints w ! m)) @ post"
    by auto
  then have "fst (main prog args w)
      = ([CoInitializeEx, CreateInstance, EnumAudioEndpoints, GetCount] @ pre)
          @ fst (Mute_body (run_opts args) m (endpoints w ! m))
          @ (post @ (if list_ex nameless (endpoints w) then [] else [CoUninitialize]))"
    using assms(1) by (simp add: main_loop_reached)
  then show ?thesis by blast
qed

lemma loop_reached_endpoints [simp]:
  "loop_reached args (w\<lparr>endpoints := ds\<rparr>) = loop_reached args w"
  by (simp add: loop_reached_def)

subsection \<open>What is written to the standard output\<close>

lemma usage_text_shape:
  "last (usage_text p) = nl \<and> usage_text p \<noteq> [nl]"
  by (simp add: usage_text_def)

lemma PrintError_stdout:
  "Write stdout m \<in> set (PrintError opts msg) \<Longrightarrow> m = ''! ''"
  by (auto simp: PrintError_def split: if_splits)

lemma MuteEndpoint_stdout:
  "Write stdout m \<in> set (fst (MuteEndpoint opts i n d)) \<Longrightarrow> m = [nl] \<or> last m \<noteq> nl"
  by (auto simp: MuteEndpoint_def PrintError_def Print_def Let_def nl_def dq_def
           split: if_splits)

lemma Mute_body_stdout:
  "Write stdout m \<in> set (fst (Mute_body opts i d)) \<Longrightarrow> m = [nl] \<or> last m \<noteq> nl"
  by (cases "friendly_name d")
     (auto simp: Mute_body_def PrintError_def Print_def Let_def nl_def dq_def split_beta
           dest: MuteEndpoint_stdout split: if_splits)

lemma Mute_loop_stdout:
  "Write stdout m \<in> set (fst (Mute_loop opts i ds)) \<Longrightarrow> m = [nl] \<or> last m \<noteq> nl"
  by (induction ds arbitrary: i) (auto simp: split_beta dest: Mute_body_stdout split: if_splits)

lemma run_never_writes_usage:
  assumes "\<not> usage_requested args"
  shows "Write stdout (usage_text p) \<notin> set (fst (main prog args w))"
proof (cases "coinit_hr w = S_OK")
  case False
  then show ?thesis using usage_text_shape [of p] by (auto simp: main_init_failed nl_def)
next
  case ok: True
  show ?thesis
  proof (cases "loop_reached args w")
    case True
    then show ?thesis
      using Mute_loop_stdout [of "usage_text p" "run_opts args" 0 "endpoints w"]
        usage_text_shape [of p]
      by (auto simp: main_loop_reached)
  next
    case False
    with ok assms have f: "FAILED (create_hr w) \<or> FAILED (enum_hr w) \<or> FAILED (count_hr w)"
      by (auto simp: loop_reached_def)
    show ?thesis
      using usage_text_shape [of p]
      by (auto simp: main_run [OF ok assms] Mute_failed [OF f] nl_def
               dest!: PrintError_stdout split: if_splits)
  qed
qed

section \<open>Properties of the program\<close>

subsection \<open>Endpoints already in the requested state\<close>

text \<open>
  C1. An endpoint whose mute flag already equals the target \<open>\<not> unmute\<close> is never written
  in a run: every \<open>SetMute\<close> of a run is made with the target, on an endpoint that is
  readable and whose flag differs from the target. When the flag is read successfully,
  \<open>MuteEndpoint\<close> calls \<open>Print\<close> with the "already muted" or "already unmuted" message and
  leaves the endpoint as it is if the flag equals the target, and otherwise calls
  \<open>SetMute\<close> with the target right after the read. In a run, for every endpoint that the
  loop gets to and whose flag is read successfully: if the flag equals the target, the
  read and that call of \<open>Print\<close> are in the trace and the run leaves the endpoint as it
  was; otherwise \<open>SetMute\<close> is called on it exactly once, with the target.

  For a second run with the same flags on the endpoints as the first run left them,
  this gives: every \<open>SetMute\<close> of the second run repeats a \<open>SetMute\<close> of the first run
  that failed. In particular the second run writes nothing when no write of the first
  run failed.
\<close>

theorem already_at_target_is_not_written:
  "(\<not> FAILED (getmute_hr d) \<and> muted d = (\<not> unmute opts) \<longrightarrow>
      MuteEndpoint opts i deviceName d =
        ([GetMute i]
           @ Print opts (''> '' @ deviceName
                           @ (if unmute opts then '' is already unmuted.'' else '' is already muted.'')),
         d))
   \<and> (\<not> FAILED (getmute_hr e) \<and> muted e \<noteq> (\<not> unmute opts) \<longrightarrow>
        take 2 (fst (MuteEndpoint opts i deviceName e)) = [GetMute i, SetMute i (\<not> unmute opts)])
   \<and> (SetMute k c \<in> set (fst (main prog args v)) \<longrightarrow>
        k < length (endpoints v) \<and> c = (\<not> unmute (run_opts args))
        \<and> muted (endpoints v ! k) \<noteq> (\<not> unmute (run_opts args))
        \<and> readable (endpoints v ! k))
   \<and> (loop_reached args v \<and> m < iterations (endpoints v) \<and> readable (endpoints v ! m)
        \<and> muted (endpoints v ! m) = (\<not> unmute (run_opts args)) \<longrightarrow>
        (\<exists>n pre post. friendly_name (endpoints v ! m) = Some n
           \<and> fst (main prog args v) =
               pre @ [GetMute m]
                 @ Print (run_opts args)
                     (''> '' @ n @ (if unmute (run_opts args) then '' is already unmuted.''
                                    else '' is already muted.''))
                 @ post)
        \<and> fst (snd (main prog args v)) ! m = endpoints v ! m)
   \<and> (loop_reached args v \<and> l < iterations (endpoints v) \<and> readable (endpoints v ! l)
        \<and> muted (endpoints v ! l) \<noteq> (\<not> unmute (run_opts args)) \<longrightarrow>
        count_list (fst (main prog args v)) (SetMute l (\<not> unmute (run_opts args))) = 1)
   \<and> (SetMute j b \<in> set (fst (main prog args (w\<lparr>endpoints := fst (snd (main prog args w))\<rparr>))) \<longrightarrow>
        j < length (endpoints w)
        \<and> SetMute j b \<in> set (fst (main prog args w))
        \<and> FAILED (setmute_hr (endpoints w ! j)))"
proof (intro conjI impI)
  assume "\<not> FAILED (getmute_hr d) \<and> muted d = (\<not> unmute opts)"
  then show "MuteEndpoint opts i deviceName d =
        ([GetMute i]
           @ Print opts (''> '' @ deviceName
                           @ (if unmute opts then '' is already unmuted.'' else '' is already muted.'')),
         d)"
    by (simp add: MuteEndpoint_def)
next
  assume "\<not> FAILED (getmute_hr e) \<and> muted e \<noteq> (\<not> unmute opts)"
  then show "take 2 (fst (MuteEndpoint opts i deviceName e)) = [GetMute i, SetMute i (\<not> unmute opts)]"
    by (auto simp: MuteEndpoint_def)
next
  assume a: "SetMute k c \<in> set (fst (main prog args v))"
  have idx: "ev_index (SetMute k c) = Some k" by simp
  from main_member [OF idx a]
  have it: "k < iterations (endpoints v)"
    and m: "SetMute k c \<in> set (fst (Mute_body (run_opts args) k (endpoints v ! k)))"
    by blast+
  from it iterations_le [of "endpoints v"] show "k < length (endpoints v)" by simp
  from Mute_body_SetMute [OF m]
  show "c = (\<not> unmute (run_opts args))"
    and "muted (endpoints v ! k) \<noteq> (\<not> unmute (run_opts args))"
    and "readable (endpoints v ! k)"
    by auto
next
  let ?o = "run_opts args"
  let ?d = "endpoints v ! m"
  assume h: "loop_reached args v \<and> m < iterations (endpoints v) \<and> readable ?d
        \<and> muted ?d = (\<not> unmute ?o)"
  then have rc: "reaches_control ?d" and g: "\<not> FAILED (getmute_hr ?d)"
    by (simp_all add: readable_def)
  from Mute_body_reached [OF rc, of ?o m] obtain n where
    n: "friendly_name ?d = Some n"
    and body: "Mute_body ?o m ?d =
      ([Item m, OpenPropertyStore m, GetValue m]
         @ Print ?o (''Found audio endpoint '' @ [dq] @ n @ [dq])
         @ [ActivateSessionManager m, GetAudioSessionControl m, ActivateEndpointVolume m]
         @ fst (MuteEndpoint ?o m n ?d) @ [Write stdout [nl]],
       snd (MuteEndpoint ?o m n ?d), Returns ())"
    by blast
  have me: "MuteEndpoint ?o m n ?d =
        ([GetMute m]
           @ Print ?o (''> '' @ n
                         @ (if unmute ?o then '' is already unmuted.'' else '' is already muted.'')),
         ?d)"
    using h g by (simp add: MuteEndpoint_def)
  from h main_iteration [of args v m prog] obtain pre post where
    "fst (main prog args v) = pre @ fst (Mute_body ?o m ?d) @ post"
    by blast
  with body me have "fst (main prog args v) =
      (pre @ [Item m, OpenPropertyStore m, GetValue m]
         @ Print ?o (''Found audio endpoint '' @ [dq] @ n @ [dq])
         @ [ActivateSessionManager m, GetAudioSessionControl m, ActivateEndpointVolume m])
        @ [GetMute m]
        @ Print ?o (''> '' @ n
                      @ (if unmute ?o then '' is already unmuted.'' else '' is already muted.''))
        @ ([Write stdout [nl]] @ post)"
    by simp
  with n show "\<exists>n pre post. friendly_name ?d = Some n
           \<and> fst (main prog args v) =
               pre @ [GetMute m]
                 @ Print ?o
                     (''> '' @ n @ (if unmute ?o then '' is already unmuted.''
                                    else '' is already muted.''))
                 @ post"
    by blast
  from h iterations_le [of "endpoints v"] have "m < length (endpoints v)" by simp
  with h body me show "fst (snd (main prog args v)) ! m = ?d"
    by (simp add: main_loop_reached Mute_loop_nth)
next
  let ?o = "run_opts args"
  let ?d = "endpoints v ! l"
  assume h: "loop_reached args v \<and> l < iterations (endpoints v) \<and> readable ?d
        \<and> muted ?d \<noteq> (\<not> unmute ?o)"
  then have off: "muted ?d = unmute ?o" by auto
  from h have r: "readable ?d" by simp
  have idx: "ev_index (SetMute l (\<not> unmute ?o)) = Some l" by simp
  from Mute_body_readable [OF r off, of l]
  have "count_list (fst (Mute_body ?o l ?d)) (SetMute l (\<not> unmute ?o)) \<noteq> 0"
    by (simp add: count_list_0_iff)
  moreover have "count_list (fst (Mute_body ?o l ?d)) (SetMute l (\<not> unmute ?o)) \<le> 1"
    using Mute_body_counts [of ?o l ?d] by (cases "unmute ?o") simp_all
  ultimately have "count_list (fst (Mute_body ?o l ?d)) (SetMute l (\<not> unmute ?o)) = 1"
    by simp
  with h show "count_list (fst (main prog args v)) (SetMute l (\<not> unmute ?o)) = 1"
    using main_count [OF idx, of prog args v] by simp
next
  let ?ds = "endpoints w"
  let ?w' = "w\<lparr>endpoints := fst (snd (main prog args w))\<rparr>"
  let ?o = "run_opts args"
  assume a: "SetMute j b \<in> set (fst (main prog args ?w'))"
  have idx: "ev_index (SetMute j b) = Some j" by simp
  from main_member [OF idx a]
  have reached: "loop_reached args w"
    and it': "j < iterations (endpoints ?w')"
    and m': "SetMute j b \<in> set (fst (Mute_body ?o j (endpoints ?w' ! j)))"
    by simp_all
  from reached have post: "endpoints ?w' = fst (snd (Mute_loop ?o 0 ?ds))"
    by (simp add: main_loop_reached)
  with it' have it: "j < iterations ?ds"
    by (simp add: Mute_loop_iterations)
  with iterations_le [of ?ds] have len: "j < length ?ds" by simp
  from post len it have nth: "endpoints ?w' ! j = fst (snd (Mute_body ?o j (?ds ! j)))"
    by (simp add: Mute_loop_nth)
  let ?d = "?ds ! j"
  from Mute_body_SetMute [OF m']
  have b: "b = (\<not> unmute ?o)"
    and off': "muted (fst (snd (Mute_body ?o j ?d))) = unmute ?o"
    and r': "readable (fst (snd (Mute_body ?o j ?d)))"
    unfolding nth by simp_all
  from r' have r: "readable ?d" by (simp add: Mute_body_status)
  have off: "muted ?d = unmute ?o"
  proof (rule ccontr)
    assume "muted ?d \<noteq> unmute ?o"
    with Mute_body_state [of ?o j ?d] have "muted (fst (snd (Mute_body ?o j ?d))) \<noteq> unmute ?o"
      by auto
    with off' show False by simp
  qed
  from Mute_body_readable [OF r off, of j] b
  have m: "SetMute j b \<in> set (fst (Mute_body ?o j ?d))" by simp
  have idx': "ev_index (SetMute j b) = Some j" by simp
  have "count_list (fst (main prog args w)) (SetMute j b)
          = count_list (fst (Mute_body ?o j ?d)) (SetMute j b)"
    using main_count [OF idx', of prog args w] reached it by simp
  with m have "count_list (fst (main prog args w)) (SetMute j b) \<noteq> 0"
    by (simp add: count_list_0_iff)
  then show "SetMute j b \<in> set (fst (main prog args w))"
    by (simp add: count_list_0_iff)
  show "j < length ?ds" by (fact len)
  show "FAILED (setmute_hr ?d)"
  proof (rule ccontr)
    assume "\<not> FAILED (setmute_hr ?d)"
    from Mute_body_written [OF m this] off' show False by simp
  qed
qed

theorem already_at_target_is_not_written_witness:
  "(\<not> FAILED (getmute_hr headset) \<and> muted headset = (\<not> unmute initial_opts))
   \<and> MuteEndpoint initial_opts 1 ''Headset'' headset =
        ([GetMute 1, Write stdout ''> Headset is already muted.'', Write stdout [nl]], headset)
   \<and> (\<not> FAILED (getmute_hr speakers) \<and> muted speakers \<noteq> (\<not> unmute initial_opts))
   \<and> take 2 (fst (MuteEndpoint initial_opts 1 ''Headset'' speakers)) = [GetMute 1, SetMute 1 True]
   \<and> SetMute 0 True \<in> set (fst (main ''mute.exe'' [] desk))
   \<and> muted (endpoints desk ! 0) \<noteq> (\<not> unmute (run_opts []))
   \<and> readable (endpoints desk ! 0)
   \<and> loop_reached [] desk \<and> 1 < iterations (endpoints desk) \<and> readable (endpoints desk ! 1)
   \<and> muted (endpoints desk ! 1) = (\<not> unmute (run_opts []))
   \<and> (\<exists>n pre post. friendly_name (endpoints desk ! 1) = Some n
         \<and> fst (main ''mute.exe'' [] desk) =
             pre @ [GetMute 1]
               @ Print (run_opts [])
                   (''> '' @ n @ (if unmute (run_opts []) then '' is already unmuted.''
                                  else '' is already muted.''))
               @ post)
   \<and> fst (snd (main ''mute.exe'' [] desk)) ! 1 = endpoints desk ! 1
   \<and> count_list (fst (main ''mute.exe'' [] desk)) (SetMute 0 (\<not> unmute (run_opts []))) = 1
   \<and> SetMute 0 True
        \<in> set (fst (main ''mute.exe'' []
                       (stuck\<lparr>endpoints := fst (snd (main ''mute.exe'' [] stuck))\<rparr>)))
   \<and> SetMute 0 True \<in> set (fst (main ''mute.exe'' [] stuck))
   \<and> FAILED (setmute_hr (endpoints stuck ! 0))"
proof -
  have p: "\<not> FAILED (getmute_hr headset) \<and> muted headset = (\<not> unmute initial_opts)"
    by code_simp
  have q: "\<not> FAILED (getmute_hr speakers) \<and> muted speakers \<noteq> (\<not> unmute initial_opts)"
    by code_simp
  have t: "SetMute 0 True \<in> set (fst (main ''mute.exe'' [] desk))"
    by code_simp
  have r: "SetMute 0 True
        \<in> set (fst (main ''mute.exe'' []
                       (stuck\<lparr>endpoints := fst (snd (main ''mute.exe'' [] stuck))\<rparr>)))"
    by code_simp
  have s: "Print initial_opts (''> '' @ ''Headset''
             @ (if unmute initial_opts then '' is already unmuted.'' else '' is already muted.''))
           = [Write stdout ''> Headset is already muted.'', Write stdout [nl]]"
    by (simp add: Print_def initial_opts_def)
  have x: "loop_reached [] desk \<and> 1 < iterations (endpoints desk) \<and> readable (endpoints desk ! 1)
      \<and> muted (endpoints desk ! 1) = (\<not> unmute (run_opts []))"
    by code_simp
  have y: "loop_reached [] desk \<and> 0 < iterations (endpoints desk) \<and> readable (endpoints desk ! 0)
      \<and> muted (endpoints desk ! 0) \<noteq> (\<not> unmute (run_opts []))"
    by code_simp
  note th = already_at_target_is_not_written
      [where d = headset and opts = initial_opts and i = 1 and deviceName = "''Headset''"
         and e = speakers and k = 0 and c = True and v = desk and m = 1 and l = 0
         and j = 0 and b = True and prog = "''mute.exe''" and args = "[]" and w = stuck]
  from th p have c1: "MuteEndpoint initial_opts 1 ''Headset'' headset =
        ([GetMute 1, Write stdout ''> Headset is already muted.'', Write stdout [nl]], headset)"
    using s by (simp add: initial_opts_def)
  from th q have c2:
    "take 2 (fst (MuteEndpoint initial_opts 1 ''Headset'' speakers)) = [GetMute 1, SetMute 1 True]"
    by (simp add: initial_opts_def)
  from th t have c3: "muted (endpoints desk ! 0) \<noteq> (\<not> unmute (run_opts []))"
    "readable (endpoints desk ! 0)"
    by blast+
  from th x have c4: "\<exists>n pre post. friendly_name (endpoints desk ! 1) = Some n
         \<and> fst (main ''mute.exe'' [] desk) =
             pre @ [GetMute 1]
               @ Print (run_opts [])
                   (''> '' @ n @ (if unmute (run_opts []) then '' is already unmuted.''
                                  else '' is already muted.''))
               @ post"
    "fst (snd (main ''mute.exe'' [] desk)) ! 1 = endpoints desk ! 1"
    by blast+
  from th y have c5:
    "count_list (fst (main ''mute.exe'' [] desk)) (SetMute 0 (\<not> unmute (run_opts []))) = 1"
    by blast
  from th r have c6: "SetMute 0 True \<in> set (fst (main ''mute.exe'' [] stuck))"
    "FAILED (setmute_hr (endpoints stuck ! 0))"
    by blast+
  from p q t x r c1 c2 c3 c4 c5 c6 show ?thesis by blast
qed

text \<open>
  The claim as it is stated fails in three places. Where the write of the first run
  fails, the endpoint is left unchanged and the second run, with the same flags, calls
  \<open>SetMute\<close> on it again. And where the mute flag cannot be read, an endpoint that is at
  the target (the headset) gets no "already muted" message, and one that is not (the
  speakers) is not written.
\<close>

theorem second_run_repeats_failed_write:
  "fst (snd (main ''mute.exe'' [] stuck)) = endpoints stuck
   \<and> count_list
         (fst (main ''mute.exe'' [] (stuck\<lparr>endpoints := fst (snd (main ''mute.exe'' [] stuck))\<rparr>)))
         (SetMute 0 True) = 1
   \<and> muted (endpoints deaf ! 1) = (\<not> unmute (run_opts []))
   \<and> Write stdout ''> Headset is already muted.'' \<notin> set (fst (main ''mute.exe'' [] deaf))
   \<and> muted (endpoints deaf ! 0) \<noteq> (\<not> unmute (run_opts []))
   \<and> SetMute 0 True \<notin> set (fst (main ''mute.exe'' [] deaf))
   \<and> SetMute 0 False \<notin> set (fst (main ''mute.exe'' [] deaf))"
  by code_simp

subsection \<open>Failures of single endpoints\<close>

text \<open>
  C2. The run on a platform whose first endpoint has no friendly-name property, so that
  the lookup of its name succeeds with an empty value, and whose second endpoint works.
  The loop body checks the status of \<open>GetValue\<close> only: it builds the name from the null
  pointer and the process is killed there. The second endpoint is never retrieved, its
  mute flag stays as it was, COM is not released, and \<open>main\<close> returns no exit code.
\<close>

theorem nameless_endpoint_kills_the_run:
  "\<not> FAILED (name_hr (endpoints anonymous ! 0))
   \<and> friendly_name (endpoints anonymous ! 0) = None
   \<and> main ''mute.exe'' [] anonymous =
        ([CoInitializeEx, CreateInstance, EnumAudioEndpoints, GetCount,
          Item 0, OpenPropertyStore 0, GetValue 0],
         endpoints anonymous, Killed)
   \<and> Item 1 \<notin> set (fst (main ''mute.exe'' [] anonymous))
   \<and> snd (snd (main ''mute.exe'' [] anonymous)) \<noteq> Returns EXIT_SUCCESS
   \<and> muted (fst (snd (main ''mute.exe'' [] anonymous)) ! 1) = False"
  by code_simp

subsection \<open>Fatal failures\<close>

text \<open>
  C3. If \<open>CoInitializeEx\<close> does not return \<open>S_OK\<close>, or, in a run that the command line
  asks for, the creation of the enumerator, the enumeration or the count query fails,
  then \<open>main\<close> returns \<open>EXIT_FAILURE\<close>, the run stops after calling \<open>PrintError\<close> with
  the message of the failed step, no mute flag is read or written, and the endpoints
  are left as they were. (\<open>PrintError\<close> writes nothing when \<open>silent\<close> is set; the failure
  of \<open>Init\<close> is reported before the flags are parsed.)
\<close>

theorem fatal_failures_abort_the_run:
  assumes "coinit_hr w \<noteq> S_OK
           \<or> (\<not> usage_requested args
              \<and> (FAILED (create_hr w) \<or> FAILED (enum_hr w) \<or> FAILED (count_hr w)))"
  shows "snd (snd (main prog args w)) = Returns EXIT_FAILURE
    \<and> fst (main prog args w) =
        (if coinit_hr w \<noteq> S_OK then
           [CoInitializeEx] @ PrintError initial_opts ''Failed to initialize COM library''
         else if FAILED (create_hr w) then
           [CoInitializeEx, CreateInstance]
             @ PrintError (run_opts args) ''Failed to create instance of MMDeviceEnumerator''
             @ [CoUninitialize]
         else if FAILED (enum_hr w) then
           [CoInitializeEx, CreateInstance, EnumAudioEndpoints]
             @ PrintError (run_opts args) ''Failed to enumerate all audio endpoints''
             @ [CoUninitialize]
         else
           [CoInitializeEx, CreateInstance, EnumAudioEndpoints, GetCount]
             @ PrintError (run_opts args) ''Failed to get endpoint count''
             @ [CoUninitialize])
    \<and> GetMute i \<notin> set (fst (main prog args w))
    \<and> SetMute i b \<notin> set (fst (main prog args w))
    \<and> fst (snd (main prog args w)) = endpoints w"
proof -
  from assms have nr: "\<not> loop_reached args w" by (auto simp: loop_reached_def)
  have "GetMute i \<notin> set (fst (main prog args w))" "SetMute i b \<notin> set (fst (main prog args w))"
    using main_not_reached(3) [OF nr, of _ prog] by fastforce+
  moreover note main_not_reached(1,2) [OF nr, of prog]
  moreover have "fst (main prog args w) =
        (if coinit_hr w \<noteq> S_OK then
           [CoInitializeEx] @ PrintError initial_opts ''Failed to initialize COM library''
         else if FAILED (create_hr w) then
           [CoInitializeEx, CreateInstance]
             @ PrintError (run_opts args) ''Failed to create instance of MMDeviceEnumerator''
             @ [CoUninitialize]
         else if FAILED (enum_hr w) then
           [CoInitializeEx, CreateInstance, EnumAudioEndpoints]
             @ PrintError (run_opts args) ''Failed to enumerate all audio endpoints''
             @ [CoUninitialize]
         else
           [CoInitializeEx, CreateInstance, EnumAudioEndpoints, GetCount]
             @ PrintError (run_opts args) ''Failed to get endpoint count''
             @ [CoUninitialize])"
  proof (cases "coinit_hr w = S_OK")
    case False
    then show ?thesis by (simp add: main_init_failed PrintError_def initial_opts_def)
  next
    case True
    with assms have u: "\<not> usage_requested args"
      and f: "FAILED (create_hr w) \<or> FAILED (enum_hr w) \<or> FAILED (count_hr w)" by auto
    show ?thesis using True by (simp add: main_run [OF True u] Mute_failed [OF f])
  qed
  ultimately show ?thesis by simp
qed

theorem fatal_failures_abort_the_run_witness:
  "coinit_hr no_enumerator = S_OK \<and> \<not> usage_requested []
   \<and> FAILED (create_hr no_enumerator)
   \<and> snd (snd (main ''mute.exe'' [] no_enumerator)) = Returns EXIT_FAILURE
   \<and> fst (main ''mute.exe'' [] no_enumerator) =
        [CoInitializeEx, CreateInstance, Write stdout ''! '',
         Write stderr ''Failed to create instance of MMDeviceEnumerator'', Write stderr [nl],
         CoUninitialize]
   \<and> GetMute 0 \<notin> set (fst (main ''mute.exe'' [] no_enumerator))
   \<and> SetMute 0 True \<notin> set (fst (main ''mute.exe'' [] no_enumerator))
   \<and> fst (snd (main ''mute.exe'' [] no_enumerator)) = endpoints no_enumerator"
proof -
  have h: "coinit_hr no_enumerator \<noteq> S_OK
      \<or> (\<not> usage_requested []
         \<and> (FAILED (create_hr no_enumerator) \<or> FAILED (enum_hr no_enumerator)
              \<or> FAILED (count_hr no_enumerator)))"
    by code_simp
  have c: "coinit_hr no_enumerator = S_OK" "FAILED (create_hr no_enumerator)"
    by code_simp+
  have p: "PrintError (run_opts []) ''Failed to create instance of MMDeviceEnumerator'' =
      [Write stdout ''! '', Write stderr ''Failed to create instance of MMDeviceEnumerator'',
       Write stderr [nl]]"
    by (simp add: PrintError_def run_opts_def initial_opts_def)
  have u: "\<not> usage_requested []" by code_simp
  from fatal_failures_abort_the_run [OF h, of "''mute.exe''" 0 True] c u p
  show ?thesis by simp
qed

subsection \<open>Silent runs\<close>

text \<open>
  C4. The run with \<open>-silent\<close> on a platform whose two endpoints work: nothing is written
  to the standard error, but the \<open>fputs\<close> that follows each call of \<open>MuteEndpoint\<close> does
  not look at the flag, and one newline per endpoint reaches the standard output.
\<close>

theorem silent_run_writes_newlines:
  "silent (run_opts [''-silent''])
   \<and> written stdout (fst (main ''mute.exe'' [''-silent''] desk)) = [nl, nl]
   \<and> written stderr (fst (main ''mute.exe'' [''-silent''] desk)) = []"
  by code_simp

subsection \<open>Where diagnostics are written\<close>

text \<open>
  C5. The run, without \<open>-silent\<close>, on a platform where no enumerator can be created: the
  prefix of the diagnostic is written to the standard output, and the line on the
  standard error has no prefix.
\<close>

theorem error_prefix_goes_to_stdout:
  "written stdout (fst (main ''mute.exe'' [] no_enumerator)) = ''! ''
   \<and> written stderr (fst (main ''mute.exe'' [] no_enumerator)) =
        ''Failed to create instance of MMDeviceEnumerator'' @ [nl]"
  by code_simp

subsection \<open>The usage text\<close>

text \<open>
  C6. When \<open>-help\<close> or \<open>-?\<close> is the sole argument, or some argument is neither \<open>-silent\<close>
  nor \<open>-unmute\<close>, then, provided \<open>Init\<close> succeeds, the run consists of printing the usage
  text between the initialisation and the release of COM; and whether \<open>Init\<close> succeeds or
  not, no enumerator is created, nothing is enumerated or counted, no mute flag is read
  or written, and the endpoints are left as they were.
\<close>

theorem usage_request_skips_the_walker:
  assumes "usage_requested args"
  shows "(coinit_hr w = S_OK \<longrightarrow>
            fst (main prog args w) =
              [CoInitializeEx, Write stdout (usage_text (program_name prog)), CoUninitialize])
    \<and> CreateInstance \<notin> set (fst (main prog args w))
    \<and> EnumAudioEndpoints \<notin> set (fst (main prog args w))
    \<and> GetCount \<notin> set (fst (main prog args w))
    \<and> GetMute i \<notin> set (fst (main prog args w))
    \<and> SetMute i b \<notin> set (fst (main prog args w))
    \<and> fst (snd (main prog args w)) = endpoints w"
  using assms by (cases "coinit_hr w = S_OK") (simp_all add: main_usage main_init_failed)

theorem usage_request_skips_the_walker_witness:
  "usage_requested [''-silent'', ''-volume'']
   \<and> coinit_hr desk = S_OK
   \<and> fst (main ''mute.exe'' [''-silent'', ''-volume''] desk) =
        [CoInitializeEx, Write stdout (usage_text ''mute.exe''), CoUninitialize]
   \<and> CreateInstance \<notin> set (fst (main ''mute.exe'' [''-silent'', ''-volume''] desk))
   \<and> GetMute 0 \<notin> set (fst (main ''mute.exe'' [''-silent'', ''-volume''] desk))
   \<and> SetMute 0 True \<notin> set (fst (main ''mute.exe'' [''-silent'', ''-volume''] desk))"
proof -
  have h: "usage_requested [''-silent'', ''-volume'']" by code_simp
  have c: "coinit_hr desk = S_OK" by code_simp
  have n: "program_name ''mute.exe'' = ''mute.exe''" by code_simp
  from usage_request_skips_the_walker [OF h, of desk "''mute.exe''" 0 True] h c n
  show ?thesis by simp
qed

text \<open>
  The claim as it is stated fails where COM cannot be initialised: \<open>main\<close> returns
  before it looks at the arguments, and the usage text is not printed.
\<close>

theorem no_usage_text_without_com:
  "usage_requested [''-help'']
   \<and> fst (main ''mute.exe'' [''-help''] no_com) =
        [CoInitializeEx, Write stdout ''! '', Write stderr ''Failed to initialize COM library'',
         Write stderr [nl]]
   \<and> Write stdout (usage_text ''mute.exe'') \<notin> set (fst (main ''mute.exe'' [''-help''] no_com))"
  by code_simp

subsection \<open>Exit code of the usage path\<close>

text \<open>
  C7. When the usage text is displayed, the command line is one that asks for it
  (\<open>-help\<close> or \<open>-?\<close> alone, or an argument that is not recognised), and the exit code is
  \<open>EXIT_FAILURE\<close>, that is 1: \<open>rc\<close> is set to \<open>EXIT_SUCCESS\<close> only after \<open>Mute\<close> returns true.
\<close>

theorem usage_displayed_exits_with_failure:
  assumes "Write stdout (usage_text (program_name prog)) \<in> set (fst (main prog args w))"
  shows "usage_requested args \<and> snd (snd (main prog args w)) = Returns EXIT_FAILURE
         \<and> EXIT_FAILURE = 1"
proof -
  from assms run_never_writes_usage [of args "program_name prog" prog w]
  have u: "usage_requested args" by blast
  have "coinit_hr w = S_OK"
  proof (rule ccontr)
    assume "coinit_hr w \<noteq> S_OK"
    with assms usage_text_shape [of "program_name prog"] show False
      by (auto simp: main_init_failed nl_def)
  qed
  with u show ?thesis by (simp add: main_usage EXIT_FAILURE_def)
qed

theorem usage_displayed_exits_with_failure_witness:
  "Write stdout (usage_text (program_name ''mute.exe''))
     \<in> set (fst (main ''mute.exe'' [''-Help''] desk))
   \<and> usage_requested [''-Help'']
   \<and> snd (snd (main ''mute.exe'' [''-Help''] desk)) = Returns EXIT_FAILURE \<and> EXIT_FAILURE = 1"
proof -
  have h: "Write stdout (usage_text (program_name ''mute.exe''))
     \<in> set (fst (main ''mute.exe'' [''-Help''] desk))"
    by code_simp
  from usage_displayed_exits_with_failure [OF h] h show ?thesis by blast
qed

text \<open>
  The claim as it is stated fails for the help request and for an argument that is not
  recognised alike: the usage text is displayed and the exit code is not
  \<open>EXIT_SUCCESS\<close>.
\<close>

theorem help_does_not_exit_with_success:
  "Write stdout (usage_text ''mute.exe'') \<in> set (fst (main ''mute.exe'' [''-help''] desk))
   \<and> snd (snd (main ''mute.exe'' [''-help''] desk)) \<noteq> Returns EXIT_SUCCESS
   \<and> Write stdout (usage_text ''mute.exe'') \<in> set (fst (main ''mute.exe'' [''-volume''] desk))
   \<and> snd (snd (main ''mute.exe'' [''-volume''] desk)) \<noteq> Returns EXIT_SUCCESS"
  by code_simp

subsection \<open>No active render endpoint\<close>

text \<open>
  C8. When the run reaches the loop and the collection of active render endpoints is
  empty, the loop body is never entered: the trace holds the initialisation, the three
  calls that obtain the collection and its count, and the release of COM, nothing is
  written to either stream, and the exit code is \<open>EXIT_SUCCESS\<close>.
\<close>

theorem empty_endpoint_set_succeeds:
  assumes "coinit_hr w = S_OK" and "\<not> usage_requested args"
    and "\<not> FAILED (create_hr w)" and "\<not> FAILED (enum_hr w)" and "\<not> FAILED (count_hr w)"
    and "endpoints w = []"
  shows "main prog args w =
           ([CoInitializeEx, CreateInstance, EnumAudioEndpoints, GetCount, CoUninitialize],
            [], Returns EXIT_SUCCESS)"
  using assms by (simp add: main_loop_reached loop_reached_def)

theorem empty_endpoint_set_succeeds_witness:
  "coinit_hr bare = S_OK \<and> \<not> usage_requested [''-silent'']
   \<and> \<not> FAILED (create_hr bare) \<and> \<not> FAILED (enum_hr bare) \<and> \<not> FAILED (count_hr bare)
   \<and> endpoints bare = []
   \<and> main ''mute.exe'' [''-silent''] bare =
        ([CoInitializeEx, CreateInstance, EnumAudioEndpoints, GetCount, CoUninitialize],
         [], Returns EXIT_SUCCESS)"
proof -
  have h: "coinit_hr bare = S_OK" "\<not> usage_requested [''-silent'']"
    "\<not> FAILED (create_hr bare)" "\<not> FAILED (enum_hr bare)" "\<not> FAILED (count_hr bare)"
    "endpoints bare = []"
    by code_simp+
  from empty_endpoint_set_succeeds [OF h, of "''mute.exe''"] h show ?thesis by blast
qed

subsection \<open>One read and one write per endpoint, through its own handles\<close>

text \<open>
  C9. In every run and for every loop index, the mute flag of the endpoint is written at
  most as often as it is read, it is read at most as often as an endpoint-volume control
  is activated for that index, a control is activated at most as often as the endpoint
  is retrieved with \<open>Item\<close>, and the endpoint is retrieved at most once: at most one read
  and at most one write per endpoint.

  Nothing is carried from one iteration to the next. In a run that reaches the loop, the
  trace is the four calls that lead to the loop, then, for each iteration in order, the
  trace of the loop body on the index and the endpoint of that iteration alone, then the
  release of COM (unless the process is killed in the loop); and the run leaves every
  endpoint as the body leaves it when run on that index and that endpoint alone, or
  untouched if the loop does not get to it.
\<close>

theorem mute_flag_accessed_at_most_once:
  "count_list (fst (main prog args w)) (SetMute i True)
     + count_list (fst (main prog args w)) (SetMute i False)
     \<le> count_list (fst (main prog args w)) (GetMute i)
   \<and> count_list (fst (main prog args w)) (GetMute i)
     \<le> count_list (fst (main prog args w)) (ActivateEndpointVolume i)
   \<and> count_list (fst (main prog args w)) (ActivateEndpointVolume i)
     \<le> count_list (fst (main prog args w)) (Item i)
   \<and> count_list (fst (main prog args w)) (Item i) \<le> 1
   \<and> (loop_reached args w \<longrightarrow>
        fst (main prog args w) =
          [CoInitializeEx, CreateInstance, EnumAudioEndpoints, GetCount]
            @ concat (map (\<lambda>(k, d). fst (Mute_body (run_opts args) k d))
                       (zip [0..<iterations (endpoints w)] (endpoints w)))
            @ (if list_ex nameless (endpoints w) then [] else [CoUninitialize])
        \<and> length (fst (snd (main prog args w))) = length (endpoints w)
        \<and> (\<forall>k<length (endpoints w).
              fst (snd (main prog args w)) ! k =
                (if k < iterations (endpoints w)
                 then fst (snd (Mute_body (run_opts args) k (endpoints w ! k)))
                 else endpoints w ! k)))"
proof -
  have "loop_reached args w \<longrightarrow>
        fst (main prog args w) =
          [CoInitializeEx, CreateInstance, EnumAudioEndpoints, GetCount]
            @ concat (map (\<lambda>(k, d). fst (Mute_body (run_opts args) k d))
                       (zip [0..<iterations (endpoints w)] (endpoints w)))
            @ (if list_ex nameless (endpoints w) then [] else [CoUninitialize])
        \<and> length (fst (snd (main prog args w))) = length (endpoints w)
        \<and> (\<forall>k<length (endpoints w).
              fst (snd (main prog args w)) ! k =
                (if k < iterations (endpoints w)
                 then fst (snd (Mute_body (run_opts args) k (endpoints w ! k)))
                 else endpoints w ! k))"
    using Mute_loop_events [of "run_opts args" 0 "endpoints w"]
    by (simp add: main_loop_reached Mute_loop_length Mute_loop_nth)
  then show ?thesis
    using Mute_body_counts [of "run_opts args" i "endpoints w ! i"]
    by (simp add: main_count)
qed

theorem mute_flag_accessed_at_most_once_witness:
  "count_list (fst (main ''mute.exe'' [] desk)) (SetMute 0 True) = 1
   \<and> count_list (fst (main ''mute.exe'' [] desk)) (SetMute 0 False) = 0
   \<and> count_list (fst (main ''mute.exe'' [] desk)) (GetMute 0) = 1
   \<and> count_list (fst (main ''mute.exe'' [] desk)) (ActivateEndpointVolume 0) = 1
   \<and> count_list (fst (main ''mute.exe'' [] desk)) (Item 0) = 1
   \<and> loop_reached [] desk
   \<and> fst (main ''mute.exe'' [] desk) =
        [CoInitializeEx, CreateInstance, EnumAudioEndpoints, GetCount]
          @ fst (Mute_body (run_opts []) 0 speakers) @ fst (Mute_body (run_opts []) 1 headset)
          @ [CoUninitialize]
   \<and> fst (snd (main ''mute.exe'' [] desk)) ! 0 = fst (snd (Mute_body (run_opts []) 0 speakers))
   \<and> fst (snd (main ''mute.exe'' [] desk)) ! 1 = fst (snd (Mute_body (run_opts []) 1 headset))"
proof -
  let ?es = "fst (main ''mute.exe'' [] desk)"
  let ?ds = "fst (snd (main ''mute.exe'' [] desk))"
  note t = mute_flag_accessed_at_most_once [of "''mute.exe''" "[]" desk 0]
  have c: "count_list ?es (SetMute 0 True) = 1"
    by code_simp
  have r: "loop_reached [] desk" by code_simp
  have e: "endpoints desk = [speakers, headset]" by (simp add: desk_def)
  have n: "\<not> nameless speakers" "\<not> nameless headset" by code_simp+
  have u: "[0..<2] = [0, Suc 0]" by (simp add: upt_rec)
  from t have k:
    "count_list ?es (SetMute 0 True) + count_list ?es (SetMute 0 False)
       \<le> count_list ?es (GetMute 0)"
    "count_list ?es (GetMute 0) \<le> count_list ?es (ActivateEndpointVolume 0)"
    "count_list ?es (ActivateEndpointVolume 0) \<le> count_list ?es (Item 0)"
    "count_list ?es (Item 0) \<le> 1"
    by blast+
  from k c have counts:
    "count_list ?es (SetMute 0 False) = 0" "count_list ?es (GetMute 0) = 1"
    "count_list ?es (ActivateEndpointVolume 0) = 1" "count_list ?es (Item 0) = 1"
    by linarith+
  from t r have loc:
    "?es = [CoInitializeEx, CreateInstance, EnumAudioEndpoints, GetCount]
            @ concat (map (\<lambda>(k, d). fst (Mute_body (run_opts []) k d))
                       (zip [0..<iterations (endpoints desk)] (endpoints desk)))
            @ (if list_ex nameless (endpoints desk) then [] else [CoUninitialize])"
    "\<forall>k<length (endpoints desk).
        ?ds ! k = (if k < iterations (endpoints desk)
                   then fst (snd (Mute_body (run_opts []) k (endpoints desk ! k)))
                   else endpoints desk ! k)"
    by blast+
  from loc(1) have trace:
    "?es = [CoInitializeEx, CreateInstance, EnumAudioEndpoints, GetCount]
          @ fst (Mute_body (run_opts []) 0 speakers) @ fst (Mute_body (run_opts []) 1 headset)
          @ [CoUninitialize]"
    by (simp add: e n u)
  from loc(2) have state:
    "?ds ! 0 = fst (snd (Mute_body (run_opts []) 0 speakers))"
    "?ds ! 1 = fst (snd (Mute_body (run_opts []) 1 headset))"
    by (simp_all add: e n)
  from c counts r trace state show ?thesis by blast
qed

subsection \<open>The audio session handles\<close>



end
